theory Spec2Isabelle
  imports Complex_Main
begin

section \<open>JavaScript values used by the services\<close>

text \<open>
  A JavaScript \<^verbatim>\<open>number\<close> that the services receive (from JSON, from a validated DTO or
  from the document store) is a finite number; it is held here as the rational it denotes
  and arithmetic is exact. IEEE-754 rounding of binary64, the infinities and negative zero
  are outside this model. An array element or an object property that may be
  \<^verbatim>\<open>undefined\<close> has an option type, \<open>None\<close> standing for \<^verbatim>\<open>undefined\<close>.
  \<^verbatim>\<open>NaN\<close> only arises where the code adds \<^verbatim>\<open>undefined\<close> to a number (the pre-save
  hook); the type \<open>number\<close> carries it there.
\<close>

datatype number = Num rat | NaN

datatype error = Error string

text \<open>\<^verbatim>\<open>xs[i]\<close> on an array: \<^verbatim>\<open>undefined\<close> beyond the end.\<close>

definition js_index :: "'a option list \<Rightarrow> nat \<Rightarrow> 'a option" where
  "js_index xs i = (if i < length xs then xs ! i else None)"

text \<open>Truthiness of an optional number, an optional count and an optional string.\<close>

definition truthy :: "rat option \<Rightarrow> bool" where
  "truthy v = (case v of None \<Rightarrow> False | Some x \<Rightarrow> x \<noteq> 0)"

definition truthy_count :: "nat option \<Rightarrow> bool" where
  "truthy_count v = (case v of None \<Rightarrow> False | Some n \<Rightarrow> n \<noteq> 0)"

definition truthy_string :: "string option \<Rightarrow> bool" where
  "truthy_string v = (case v of None \<Rightarrow> False | Some s \<Rightarrow> s \<noteq> [])"




text \<open>\<^verbatim>\<open>Math.max(x, ...xs)\<close> and \<^verbatim>\<open>Math.min(x, ...xs)\<close> on at least one argument.\<close>

definition Math_max :: "rat \<Rightarrow> rat list \<Rightarrow> rat" where
  "Math_max x xs = foldl max x xs"

definition Math_min :: "rat \<Rightarrow> rat list \<Rightarrow> rat" where
  "Math_min x xs = foldl min x xs"



section \<open>Data model\<close>

text \<open>
  \<^verbatim>\<open>XRayData\<close> (rabbitmq.service.ts): \<^verbatim>\<open>data\<close> is an array of
  \<^verbatim>\<open>[timestamp, [latitude, longitude, speed]]\<close>. The inner array is a list whose elements
  may be undefined, since \<^verbatim>\<open>calculateSignalMetrics\<close> tests for that.
\<close>

type_synonym coordinates = "rat option list"

type_synonym sample = "rat \<times> coordinates"

record XRayData =
  xray_deviceId :: string
  xray_data :: "sample list"
  xray_time :: rat

text \<open>\<^verbatim>\<open>CreateSignalDto\<close> (xray-data.dto.ts), the result of the metrics calculation.\<close>

record CreateSignalDto =
  dto_deviceId :: string
  dto_timestamp :: rat
  dto_data :: "sample list"
  dto_dataLength :: rat
  dto_dataVolume :: rat
  dto_averageSpeed :: rat
  dto_maxSpeed :: rat
  dto_minSpeed :: rat
  dto_coordinates :: "rat list"

text \<open>
  A \<^verbatim>\<open>Signal\<close> document (signal.schema.ts). The fields that the pre-save hook tests for
  presence are optional; \<^verbatim>\<open>createdAt\<close> and \<^verbatim>\<open>updatedAt\<close> play no role below and are left out.
\<close>

record Signal =
  sig_deviceId :: string
  sig_timestamp :: rat
  sig_data :: "sample list option"
  sig_dataLength :: "rat option"
  sig_dataVolume :: "rat option"
  sig_averageSpeed :: "rat option"
  sig_maxSpeed :: "rat option"
  sig_minSpeed :: "rat option"
  sig_coordinates :: "number list option"


section \<open>Metrics calculator: \<^verbatim>\<open>SignalsService.calculateSignalMetrics\<close>\<close>

text \<open>
  \<^verbatim>\<open>reduce\<close> is \<open>foldl\<close> with the same argument order. After \<^verbatim>\<open>filter\<close> has dropped the
  undefined elements, \<open>map the\<close> reads the remaining numbers. The conditional
  \<^verbatim>\<open>speeds.length > 0 ? Math.max(...speeds) : 0\<close> is the case distinction on \<open>speeds\<close>.
\<close>

definition calculateSignalMetrics :: "XRayData \<Rightarrow> CreateSignalDto" where
  "calculateSignalMetrics xrayData =
    (let dataLength = length (xray_data xrayData);
         dataVolume = foldl (\<lambda>total (_, coordinates). total + length coordinates) 0
                        (xray_data xrayData);
         speeds = map the (filter (\<lambda>speed. speed \<noteq> None)
                    (map (\<lambda>(_, coordinates). js_index coordinates 2) (xray_data xrayData)));
         averageSpeed = (if length speeds > 0
                         then foldl (\<lambda>sum speed. sum + speed) 0 speeds / of_nat (length speeds)
                         else 0);
         maxSpeed = (case speeds of [] \<Rightarrow> 0 | s # rest \<Rightarrow> Math_max s rest);
         minSpeed = (case speeds of [] \<Rightarrow> 0 | s # rest \<Rightarrow> Math_min s rest);
         validCoordinates = map (\<lambda>coord. (the (fst coord), the (snd coord)))
                    (filter (\<lambda>coord. fst coord \<noteq> None \<and> snd coord \<noteq> None)
                       (map (\<lambda>(_, coordinates). (js_index coordinates 0, js_index coordinates 1))
                          (xray_data xrayData)));
         avgCoordinates = (if length validCoordinates > 0
                           then [foldl (\<lambda>sum coord. sum + fst coord) 0 validCoordinates
                                   / of_nat (length validCoordinates),
                                 foldl (\<lambda>sum coord. sum + snd coord) 0 validCoordinates
                                   / of_nat (length validCoordinates)]
                           else [0, 0])
     in \<lparr>dto_deviceId = xray_deviceId xrayData, dto_timestamp = xray_time xrayData,
         dto_data = xray_data xrayData, dto_dataLength = of_nat dataLength,
         dto_dataVolume = of_nat dataVolume, dto_averageSpeed = averageSpeed,
         dto_maxSpeed = maxSpeed, dto_minSpeed = minSpeed,
         dto_coordinates = avgCoordinates\<rparr>)"

text \<open>A sample whose inner array is a complete \<^verbatim>\<open>[latitude, longitude, speed]\<close> triple.\<close>

definition complete_triple :: "sample \<Rightarrow> bool" where
  "complete_triple s = (case snd s of [Some lat, Some lng, Some speed] \<Rightarrow> True | _ \<Rightarrow> False)"

text \<open>The Reading of the scenario in the specification.\<close>

definition reading_d1 :: XRayData where
  "reading_d1 = \<lparr>xray_deviceId = ''d1'',
     xray_data = [(762, [Some 51.339764, Some 12.339223, Some 1.2038]),
             (1766, [Some 51.339777, Some 12.339211, Some 1.531604])],
     xray_time = 1735683480000\<rparr>"


section \<open>Pre-save hook: \<^verbatim>\<open>SignalSchema.pre('save')\<close>\<close>








section \<open>Persistence gateway: queries of \<^verbatim>\<open>SignalsService\<close>\<close>

text \<open>
  The Mongoose model is an in-memory collection in insertion order. \<open>store_error\<close> is set
  when the backing store rejects every operation with that error, as the rejected mocks of
  the service's tests do. A query collects the conditions that the builder calls add;
  \<open>exec\<close> applies the conditions conjunctively, then \<^verbatim>\<open>skip\<close>, then \<^verbatim>\<open>limit\<close>, which is
  the order in which the store applies them whatever the order of the builder calls.
  The logger calls of this service are left out.
\<close>

record SignalFilterDto =
  f_deviceId :: "string option"
  f_startTime :: "rat option"
  f_endTime :: "rat option"
  f_limit :: "nat option"
  f_skip :: "nat option"

record SignalModel =
  documents :: "Signal list"
  store_error :: "error option"

record Query =
  q_deviceId :: "string option"
  q_timestamp :: "(rat \<times> rat) option"
  q_limit :: "nat option"
  q_skip :: "nat option"

definition find :: Query where
  "find = \<lparr>q_deviceId = None, q_timestamp = None, q_limit = None, q_skip = None\<rparr>"

definition where_deviceId :: "string \<Rightarrow> Query \<Rightarrow> Query" where
  "where_deviceId v query = query\<lparr>q_deviceId := Some v\<rparr>"

definition where_timestamp_gte_lte :: "rat \<Rightarrow> rat \<Rightarrow> Query \<Rightarrow> Query" where
  "where_timestamp_gte_lte lo hi query = query\<lparr>q_timestamp := Some (lo, hi)\<rparr>"

definition limit :: "nat \<Rightarrow> Query \<Rightarrow> Query" where
  "limit n query = query\<lparr>q_limit := Some n\<rparr>"

definition skip :: "nat \<Rightarrow> Query \<Rightarrow> Query" where
  "skip n query = query\<lparr>q_skip := Some n\<rparr>"

definition matches :: "Query \<Rightarrow> Signal \<Rightarrow> bool" where
  "matches query doc =
    ((case q_deviceId query of None \<Rightarrow> True | Some v \<Rightarrow> sig_deviceId doc = v) \<and>
     (case q_timestamp query of None \<Rightarrow> True
      | Some (lo, hi) \<Rightarrow> lo \<le> sig_timestamp doc \<and> sig_timestamp doc \<le> hi))"

definition exec :: "SignalModel \<Rightarrow> Query \<Rightarrow> error + Signal list" where
  "exec model query =
    (case store_error model of
       Some e \<Rightarrow> Inl e
     | None \<Rightarrow>
         (let found = filter (matches query) (documents model);
              skipped = (case q_skip query of None \<Rightarrow> found | Some k \<Rightarrow> drop k found)
          in Inr (case q_limit query of None \<Rightarrow> skipped | Some n \<Rightarrow> take n skipped)))"

text \<open>\<^verbatim>\<open>filter?.field\<close> on the optional filter argument.\<close>

definition optional_chain :: "'a option \<Rightarrow> ('a \<Rightarrow> 'b option) \<Rightarrow> 'b option" where
  "optional_chain obj field = (case obj of None \<Rightarrow> None | Some x \<Rightarrow> field x)"

text \<open>\<^verbatim>\<open>findAll\<close>: the \<^verbatim>\<open>catch\<close> logs and rethrows, so an error of \<open>exec\<close> is the result.\<close>

definition findAll :: "SignalModel \<Rightarrow> SignalFilterDto option \<Rightarrow> error + Signal list" where
  "findAll model filterDto =
    (let query0 = find;
         query1 = (if truthy_string (optional_chain filterDto f_deviceId)
                   then where_deviceId (the (optional_chain filterDto f_deviceId)) query0
                   else query0);
         query2 = (if truthy (optional_chain filterDto f_startTime) \<and>
                      truthy (optional_chain filterDto f_endTime)
                   then where_timestamp_gte_lte (the (optional_chain filterDto f_startTime))
                          (the (optional_chain filterDto f_endTime)) query1
                   else query1);
         query3 = (if truthy_count (optional_chain filterDto f_limit)
                   then limit (the (optional_chain filterDto f_limit)) query2
                   else query2);
         query4 = (if truthy_count (optional_chain filterDto f_skip)
                   then skip (the (optional_chain filterDto f_skip)) query3
                   else query3)
     in exec model query4)"








record SignalStatistics =
  totalSignals :: nat
  totalDevices :: nat
  averageDataLength :: rat
  averageDataVolume :: rat
  averageSpeed :: rat
  maxSpeed :: "rat option"
  minSpeed :: "rat option"







section \<open>Message broker client and \<^verbatim>\<open>RabbitMQService\<close>\<close>

text \<open>
  A message body is kept symbolic: \<open>Json d\<close> is the buffer that holds
  \<^verbatim>\<open>JSON.stringify(d)\<close>, and \<open>Malformed s\<close> is a buffer whose text \<^verbatim>\<open>JSON.parse\<close> rejects.
  The channel of the broker client records what was handed to it, in order; its operations
  throw once the channel is closed. Each service keeps the entries of its own logger.
\<close>

datatype payload = Json XRayData | Malformed string

record message =
  content :: payload

definition JSON_stringify :: "XRayData \<Rightarrow> payload" where
  "JSON_stringify d = Json d"

definition JSON_parse :: "payload \<Rightarrow> error + XRayData" where
  "JSON_parse p = (case p of Json d \<Rightarrow> Inr d | Malformed s \<Rightarrow> Inl (Error ''SyntaxError''))"

record channel =
  chan_closed :: bool
  published :: "(string \<times> string \<times> payload) list"
  acked :: "message list"
  nacked :: "(message \<times> bool \<times> bool) list"

definition channel_publish :: "channel \<Rightarrow> string \<Rightarrow> string \<Rightarrow> payload \<Rightarrow> error + channel" where
  "channel_publish ch exchange key body =
    (if chan_closed ch then Inl (Error ''Channel closed'')
     else Inr (ch\<lparr>published := published ch @ [(exchange, key, body)]\<rparr>))"

definition channel_ack :: "channel \<Rightarrow> message \<Rightarrow> error + channel" where
  "channel_ack ch msg =
    (if chan_closed ch then Inl (Error ''Channel closed'')
     else Inr (ch\<lparr>acked := acked ch @ [msg]\<rparr>))"

definition channel_nack :: "channel \<Rightarrow> message \<Rightarrow> bool \<Rightarrow> bool \<Rightarrow> error + channel" where
  "channel_nack ch msg allUpTo requeue =
    (if chan_closed ch then Inl (Error ''Channel closed'')
     else Inr (ch\<lparr>nacked := nacked ch @ [(msg, allUpTo, requeue)]\<rparr>))"

datatype level = LOG | WARN | ERROR

type_synonym log_entry = "level \<times> string"

record connection =
  conn_closed :: bool

record RabbitMQService =
  connection :: "connection option"
  channel :: "channel option"
  rmq_logger :: "log_entry list"

definition exchangeName :: string where
  "exchangeName = ''x-ray-exchange''"

definition queueName :: string where
  "queueName = ''x-ray-queue''"

definition routingKey :: string where
  "routingKey = ''''"

text \<open>\<^verbatim>\<open>publishXRayData\<close>: the missing channel is tested before the \<^verbatim>\<open>try\<close>; an error of
  \<^verbatim>\<open>channel.publish\<close> is logged and thrown again.\<close>

definition publishXRayData :: "RabbitMQService \<Rightarrow> XRayData \<Rightarrow> (error + unit) \<times> RabbitMQService" where
  "publishXRayData this d =
    (case channel this of
       None \<Rightarrow> (Inl (Error ''Channel not initialized''), this)
     | Some ch \<Rightarrow>
         (case channel_publish ch exchangeName routingKey (JSON_stringify d) of
            Inr ch' \<Rightarrow>
              (Inr (), this\<lparr>channel := Some ch',
                         rmq_logger := rmq_logger this @
                           [(LOG, ''Published X-ray data for device: '' @ xray_deviceId d)]\<rparr>)
          | Inl e \<Rightarrow>
              (Inl e, this\<lparr>rmq_logger := rmq_logger this @
                           [(ERROR, ''Failed to publish X-ray data:'')]\<rparr>)))"

text \<open>
  \<^verbatim>\<open>emit\<close> calls the listeners of the event in order, synchronously; a listener that throws
  ends the call with its error. A listener works on the state \<open>'w\<close> of the subscribers.
\<close>

type_synonym 'w listener = "XRayData \<Rightarrow> 'w \<Rightarrow> (error + unit) \<times> 'w"

fun emit :: "'w listener list \<Rightarrow> XRayData \<Rightarrow> 'w \<Rightarrow> (error + unit) \<times> 'w" where
  "emit [] d w = (Inr (), w)"
| "emit (l # ls) d w =
     (case l d w of
        (Inl e, w') \<Rightarrow> (Inl e, w')
      | (Inr u, w') \<Rightarrow> emit ls d w')"

text \<open>\<^verbatim>\<open>this.channel?.ack(msg)\<close> and \<^verbatim>\<open>this.channel?.nack(msg, false, true)\<close>.\<close>

definition optional_ack :: "RabbitMQService \<Rightarrow> message \<Rightarrow> (error + unit) \<times> RabbitMQService" where
  "optional_ack this msg =
    (case channel this of
       None \<Rightarrow> (Inr (), this)
     | Some ch \<Rightarrow>
         (case channel_ack ch msg of
            Inl e \<Rightarrow> (Inl e, this)
          | Inr ch' \<Rightarrow> (Inr (), this\<lparr>channel := Some ch'\<rparr>)))"

definition optional_nack ::
  "RabbitMQService \<Rightarrow> message \<Rightarrow> bool \<Rightarrow> bool \<Rightarrow> (error + unit) \<times> RabbitMQService" where
  "optional_nack this msg allUpTo requeue =
    (case channel this of
       None \<Rightarrow> (Inr (), this)
     | Some ch \<Rightarrow>
         (case channel_nack ch msg allUpTo requeue of
            Inl e \<Rightarrow> (Inl e, this)
          | Inr ch' \<Rightarrow> (Inr (), this\<lparr>channel := Some ch'\<rparr>)))"

text \<open>
  The callback that \<^verbatim>\<open>startConsumer\<close> hands to \<^verbatim>\<open>channel.consume\<close>. \<open>consumer_try\<close> is
  the body of its \<^verbatim>\<open>try\<close>: parse, log, emit, acknowledge. The \<^verbatim>\<open>catch\<close> logs and
  negative-acknowledges with \<^verbatim>\<open>allUpTo = false\<close> and \<^verbatim>\<open>requeue = true\<close>; an error of that
  call leaves the callback.
\<close>

definition consumer_try ::
  "'w listener list \<Rightarrow> RabbitMQService \<times> 'w \<Rightarrow> message \<Rightarrow> (error + unit) \<times> RabbitMQService \<times> 'w" where
  "consumer_try listeners s msg =
    (case JSON_parse (content msg) of
       Inl e \<Rightarrow> (Inl e, s)
     | Inr d \<Rightarrow>
         (let this1 = (fst s)\<lparr>rmq_logger := rmq_logger (fst s) @
                        [(LOG, ''Received X-ray data from device: '' @ xray_deviceId d)]\<rparr>
          in case emit listeners d (snd s) of
               (Inl e, w') \<Rightarrow> (Inl e, this1, w')
             | (Inr u, w') \<Rightarrow>
                 (case optional_ack this1 msg of
                    (Inl e, this2) \<Rightarrow> (Inl e, this2, w')
                  | (Inr u', this2) \<Rightarrow> (Inr (), this2, w'))))"

definition consumer_callback ::
  "'w listener list \<Rightarrow> RabbitMQService \<times> 'w \<Rightarrow> message option \<Rightarrow> (error + unit) \<times> RabbitMQService \<times> 'w" where
  "consumer_callback listeners s m =
    (case m of
       None \<Rightarrow> (Inr (), s)
     | Some msg \<Rightarrow>
         (case consumer_try listeners s msg of
            (Inr u, s') \<Rightarrow> (Inr (), s')
          | (Inl e, this', w') \<Rightarrow>
              (let this1 = this'\<lparr>rmq_logger := rmq_logger this' @
                             [(ERROR, ''Error processing message:'')]\<rparr>
               in case optional_nack this1 msg False True of
                    (Inl e', this2) \<Rightarrow> (Inl e', this2, w')
                  | (Inr u, this2) \<Rightarrow> (Inr (), this2, w'))))"


section \<open>Ingestion handler of \<^verbatim>\<open>SignalsService\<close>\<close>

text \<open>
  \<^verbatim>\<open>signalModel.create\<close> (validation, hooks and insertion by the document store) is the
  parameter \<open>create\<close>: it returns the stored document or rejects. \<^verbatim>\<open>createSignal\<close> and
  \<^verbatim>\<open>processXRayData\<close> log a rejection and throw it again. The listener that
  \<^verbatim>\<open>onModuleInit\<close> registers calls \<^verbatim>\<open>processXRayData(data).catch(...)\<close>: the promise's
  rejection is logged there and goes no further, so the listener itself returns normally.
\<close>

type_synonym create_op = "CreateSignalDto \<Rightarrow> SignalModel \<Rightarrow> (error + Signal) \<times> SignalModel"

record SignalsService =
  signalModel :: SignalModel
  signals_logger :: "log_entry list"

definition createSignal ::
  "create_op \<Rightarrow> SignalsService \<Rightarrow> CreateSignalDto \<Rightarrow> (error + Signal) \<times> SignalsService" where
  "createSignal create this createSignalDto =
    (case create createSignalDto (signalModel this) of
       (Inr doc, model') \<Rightarrow> (Inr doc, this\<lparr>signalModel := model'\<rparr>)
     | (Inl e, model') \<Rightarrow>
         (Inl e, this\<lparr>signalModel := model',
                     signals_logger := signals_logger this @ [(ERROR, ''Error creating signal:'')]\<rparr>))"

definition processXRayData ::
  "create_op \<Rightarrow> SignalsService \<Rightarrow> XRayData \<Rightarrow> (error + Signal) \<times> SignalsService" where
  "processXRayData create this xrayData =
    (case createSignal create this (calculateSignalMetrics xrayData) of
       (Inr doc, this') \<Rightarrow> (Inr doc, this')
     | (Inl e, this') \<Rightarrow>
         (Inl e, this'\<lparr>signals_logger := signals_logger this' @
                        [(ERROR, ''Error processing X-ray data:'')]\<rparr>))"

definition xray_data_listener :: "create_op \<Rightarrow> SignalsService listener" where
  "xray_data_listener create d this =
    (case processXRayData create this d of
       (Inr doc, this') \<Rightarrow> (Inr (), this')
     | (Inl e, this') \<Rightarrow>
         (Inr (), this'\<lparr>signals_logger := signals_logger this' @
                         [(ERROR, ''Error processing X-ray data:'')]\<rparr>))"

text \<open>A document store that rejects every write, a connected and a never connected broker
  service, and a signals service over an empty collection.\<close>

definition rejecting_create :: create_op where
  "rejecting_create createSignalDto model = (Inl (Error ''PersistenceError''), model)"

definition open_channel :: channel where
  "open_channel = \<lparr>chan_closed = False, published = [], acked = [], nacked = []\<rparr>"

definition connected_service :: RabbitMQService where
  "connected_service = \<lparr>connection = Some \<lparr>conn_closed = False\<rparr>,
     channel = Some open_channel, rmq_logger = []\<rparr>"

definition fresh_service :: RabbitMQService where
  "fresh_service = \<lparr>connection = None, channel = None, rmq_logger = []\<rparr>"

definition empty_signals :: SignalsService where
  "empty_signals = \<lparr>signalModel = \<lparr>documents = [], store_error = None\<rparr>,
     signals_logger = []\<rparr>"

section \<open>Device simulator: \<^verbatim>\<open>ProducerService\<close>\<close>

text \<open>
  The catalog \<^verbatim>\<open>xrayData\<close> maps a device id to its recorded samples and base time.
  \<open>now\<close> is what \<^verbatim>\<open>Date.now()\<close> returns; the pacing delay of 100 ms moves it on.
  \<open>simulationIntervals\<close> maps a device id to the timer that \<^verbatim>\<open>setInterval\<close> returned,
  timers being numbered in the order of their creation. The broker service that the
  producer was constructed with is part of its state.
\<close>

record device_entry =
  entry_data :: "sample list"
  entry_time :: rat

record ProducerService =
  xrayData :: "string \<rightharpoonup> device_entry"
  simulationIntervals :: "string \<rightharpoonup> nat"
  next_interval :: nat
  rabbitMQService :: RabbitMQService
  logger :: "log_entry list"
  now :: rat


text \<open>Decimal digits of an index in a log line.\<close>

fun string_of_nat :: "nat \<Rightarrow> string" where
  "string_of_nat n =
     (if n < 10 then [char_of (48 + n)]
      else string_of_nat (n div 10) @ [char_of (48 + n mod 10)])"




text \<open>
  \<^verbatim>\<open>simulateDevice\<close> returns the state that the timer's callback closes over: the catalog
  entry and the cursor \<^verbatim>\<open>dataIndex\<close>, which starts at 0. Nothing is sent before the first
  tick.
\<close>

record simulation =
  sim_deviceId :: string
  sim_deviceData :: device_entry
  sim_interval :: rat
  dataIndex :: nat


text \<open>
  One run of the timer's callback. With an empty stored sequence \<^verbatim>\<open>dataIndex % 0\<close> is
  \<^verbatim>\<open>NaN\<close> and the Reading sent holds the single element \<^verbatim>\<open>undefined\<close>, which is no
  sample: the result is \<open>None\<close> there. Otherwise the sample under the cursor is sent alone;
  the cursor moves on after a successful publish, and a publish error is logged and
  swallowed with the cursor left where it was.
\<close>

definition simulation_tick ::
  "simulation \<Rightarrow> ProducerService \<Rightarrow> (simulation \<times> ProducerService) option" where
  "simulation_tick sim this =
    (if entry_data (sim_deviceData sim) = [] then None
     else
       (let currentData = entry_data (sim_deviceData sim)
                            ! (dataIndex sim mod length (entry_data (sim_deviceData sim)))
        in case publishXRayData (rabbitMQService this)
                  \<lparr>xray_deviceId = sim_deviceId sim, xray_data = [currentData],
                   xray_time = now this\<rparr> of
             (Inr u, service') \<Rightarrow>
               Some (sim\<lparr>dataIndex := dataIndex sim + 1\<rparr>,
                     this\<lparr>rabbitMQService := service',
                          logger := logger this @
                            [(LOG, ''Sent data for device: '' @ sim_deviceId sim @ '', index: ''
                                   @ string_of_nat (dataIndex sim))]\<rparr>)
           | (Inl e, service') \<Rightarrow>
               Some (sim,
                     this\<lparr>rabbitMQService := service',
                          logger := logger this @
                            [(ERROR, ''Error sending data for device '' @ sim_deviceId sim @ '':'')]\<rparr>)))"


text \<open>The Readings that the producer's broker channel has been handed so far, in order.\<close>

definition readings_of :: "(string \<times> string \<times> payload) list \<Rightarrow> XRayData list" where
  "readings_of ps = concat (map (\<lambda>(exchange, key, body).
                       case body of Json d \<Rightarrow> [d] | Malformed s \<Rightarrow> []) ps)"

definition sent :: "ProducerService \<Rightarrow> XRayData list" where
  "sent this = (case channel (rabbitMQService this) of
                  None \<Rightarrow> []
                | Some ch \<Rightarrow> readings_of (published ch))"


text \<open>The producer is connected: its broker service has an open channel.\<close>

definition connected :: "ProducerService \<Rightarrow> bool" where
  "connected this = (case channel (rabbitMQService this) of
                       None \<Rightarrow> False
                     | Some ch \<Rightarrow> \<not> chan_closed ch)"


section \<open>Example documents\<close>

text \<open>A stored document of device \<open>d\<close> collected at time \<open>t\<close>, holding one sample.\<close>

definition signal_at :: "string \<Rightarrow> rat \<Rightarrow> Signal" where
  "signal_at d t = \<lparr>sig_deviceId = d, sig_timestamp = t,
     sig_data = Some [(0, [Some 51.339764, Some 12.339223, Some 1.2038])],
     sig_dataLength = Some 1, sig_dataVolume = Some 3,
     sig_averageSpeed = Some 1.2038, sig_maxSpeed = Some 1.2038, sig_minSpeed = Some 1.2038,
     sig_coordinates = Some [Num 51.339764, Num 12.339223]\<rparr>"





text \<open>The Reading of a tick: the device's sample at cursor \<open>k\<close> modulo the length of its
  sequence, alone, stamped with the time \<open>t\<close> of the tick.\<close>

definition tick_reading :: "string \<Rightarrow> device_entry \<Rightarrow> nat \<times> rat \<Rightarrow> XRayData" where
  "tick_reading deviceId entry kt =
     \<lparr>xray_deviceId = deviceId,
      xray_data = [entry_data entry ! (fst kt mod length (entry_data entry))],
      xray_time = snd kt\<rparr>"


section \<open>Verified properties\<close>

subsection \<open>Metrics calculator\<close>

lemma complete_triple_length: "complete_triple s \<Longrightarrow> length (snd s) = 3"
  by (auto simp: complete_triple_def split: list.splits option.splits)

lemma dataVolume_foldl:
  "\<forall>s\<in>set xs. complete_triple s \<Longrightarrow>
   foldl (\<lambda>total (_, coordinates). total + length coordinates) a xs = a + 3 * length xs"
proof (induction xs arbitrary: a)
  case Nil
  then show ?case by simp
next
  case (Cons s xs)
  have "length (snd s) = 3" using Cons.prems by (simp add: complete_triple_length)
  then show ?case using Cons by (cases s) simp
qed

text \<open>
  Claim C2. For a Reading whose sample list is non-empty and whose every sample carries a
  complete \<^verbatim>\<open>[latitude, longitude, speed]\<close> triple, the calculator's \<^verbatim>\<open>dataLength\<close> is the
  number of samples and its \<^verbatim>\<open>dataVolume\<close> is three times \<^verbatim>\<open>dataLength\<close>.
\<close>

theorem dataVolume_three_times_dataLength:
  assumes "xray_data reading \<noteq> []"
    and "\<forall>s\<in>set (xray_data reading). complete_triple s"
  shows "dto_dataLength (calculateSignalMetrics reading) = of_nat (length (xray_data reading))
       \<and> dto_dataVolume (calculateSignalMetrics reading)
           = 3 * dto_dataLength (calculateSignalMetrics reading)"
  using dataVolume_foldl [OF assms(2), of 0]
  by (simp add: calculateSignalMetrics_def Let_def)

theorem dataVolume_three_times_dataLength_witness:
  "xray_data reading_d1 \<noteq> [] \<and> list_all complete_triple (xray_data reading_d1)
   \<and> dto_dataLength (calculateSignalMetrics reading_d1) = 2
   \<and> dto_dataVolume (calculateSignalMetrics reading_d1) = 6"
proof -
  have ne: "xray_data reading_d1 \<noteq> []" by (simp add: reading_d1_def)
  have ct: "\<forall>s\<in>set (xray_data reading_d1). complete_triple s"
    by (simp add: reading_d1_def complete_triple_def)
  have len: "length (xray_data reading_d1) = 2" by (simp add: reading_d1_def)
  show ?thesis
    using dataVolume_three_times_dataLength [OF ne ct] ne ct len by (simp add: list_all_iff)
qed



text \<open>
  Claim C5. For a Reading with no samples the calculator returns \<^verbatim>\<open>averageSpeed = 0\<close>,
  \<^verbatim>\<open>maxSpeed = 0\<close>, \<^verbatim>\<open>minSpeed = 0\<close>, \<^verbatim>\<open>coordinates = [0, 0]\<close>, \<^verbatim>\<open>dataLength = 0\<close> and
  \<^verbatim>\<open>dataVolume = 0\<close>.
\<close>

theorem empty_reading_zero_metrics:
  "calculateSignalMetrics \<lparr>xray_deviceId = d, xray_data = [], xray_time = t\<rparr> =
     \<lparr>dto_deviceId = d, dto_timestamp = t, dto_data = [], dto_dataLength = 0,
      dto_dataVolume = 0, dto_averageSpeed = 0, dto_maxSpeed = 0, dto_minSpeed = 0,
      dto_coordinates = [0, 0]\<rparr>"
  by (simp add: calculateSignalMetrics_def)

subsection \<open>Pre-save hook\<close>








subsection \<open>Queries\<close>

lemma exec_matches: "exec model query = Inr rs \<Longrightarrow> r \<in> set rs \<Longrightarrow> matches query r"
  by (auto simp: exec_def Let_def split: option.splits dest!: in_set_takeD in_set_dropD)

lemma findAll_both_bounds_in_range:
  assumes "f_startTime f = Some lo" "f_endTime f = Some hi" "lo \<noteq> 0" "hi \<noteq> 0"
    and "findAll model (Some f) = Inr rs" and "r \<in> set rs"
  shows "lo \<le> sig_timestamp r \<and> sig_timestamp r \<le> hi"
proof -
  obtain q where q: "findAll model (Some f) = exec model q" "q_timestamp q = Some (lo, hi)"
    using assms(1-4)
    by (simp add: findAll_def Let_def optional_chain_def truthy_def find_def where_deviceId_def
        where_timestamp_gte_lte_def limit_def skip_def)
  then have "matches q r" using exec_matches assms(5,6) by metis
  then show ?thesis using q(2) by (simp add: matches_def)
qed

lemma findAll_one_bound_unfiltered:
  assumes "f_startTime f = None \<or> f_endTime f = None"
  shows "findAll model (Some f) = findAll model (Some (f\<lparr>f_startTime := None, f_endTime := None\<rparr>))"
  using assms by (auto simp: findAll_def Let_def optional_chain_def truthy_def)

text \<open>
  Claim C4 has \<^verbatim>\<open>findAll\<close> return only records inside \<^verbatim>\<open>[startTime, endTime]\<close> when both
  bounds are supplied. The two lemmas above give what the code does when both bounds are
  non-zero and when one is missing. With \<^verbatim>\<open>startTime = 0\<close> and \<^verbatim>\<open>endTime = 1000\<close> both are
  supplied, yet 0 is falsy, the range is not applied, and the record collected at 5000 is
  returned.
\<close>

theorem findAll_zero_startTime_not_applied:
  "findAll \<lparr>documents = [signal_at ''d1'' 500, signal_at ''d1'' 5000], store_error = None\<rparr>
     (Some \<lparr>f_deviceId = None, f_startTime = Some 0, f_endTime = Some 1000,
            f_limit = None, f_skip = None\<rparr>)
   = Inr [signal_at ''d1'' 500, signal_at ''d1'' 5000]
   \<and> sig_timestamp (signal_at ''d1'' 5000) = 5000"
  by (simp add: findAll_def find_def exec_def matches_def optional_chain_def truthy_def
      truthy_string_def truthy_count_def signal_at_def)





subsection \<open>Publisher and consumer\<close>

text \<open>
  Claim C6. When no channel exists, \<^verbatim>\<open>publishXRayData\<close> fails with the error
  \<^verbatim>\<open>Channel not initialized\<close> and leaves the service as it was: nothing is published,
  no connection or channel is opened, nothing is retried.
\<close>

theorem publish_without_channel:
  assumes "channel this = None"
  shows "publishXRayData this d = (Inl (Error ''Channel not initialized''), this)"
  using assms by (simp add: publishXRayData_def)

theorem publish_without_channel_witness:
  "channel fresh_service = None \<and>
   publishXRayData fresh_service reading_d1 = (Inl (Error ''Channel not initialized''), fresh_service)"
proof -
  have h: "channel fresh_service = None" by (simp add: fresh_service_def)
  show ?thesis using publish_without_channel [OF h, of reading_d1] h by simp
qed

lemma listener_returns_normally:
  "\<exists>s'. xray_data_listener create d s = (Inr (), s')"
  by (simp add: xray_data_listener_def split: prod.splits sum.splits)

lemma consumer_acks_whenever_decoded:
  assumes "channel this = Some ch" and "\<not> chan_closed ch"
    and "JSON_parse (content msg) = Inr d"
  shows "\<exists>this' s'. consumer_callback [xray_data_listener create] (this, s) (Some msg)
            = (Inr (), this', s')
          \<and> map_option acked (channel this') = Some (acked ch @ [msg])
          \<and> map_option nacked (channel this') = Some (nacked ch)"
proof -
  obtain s' where l: "xray_data_listener create d s = (Inr (), s')"
    using listener_returns_normally by blast
  show ?thesis using assms l
    by (simp add: consumer_callback_def consumer_try_def optional_ack_def channel_ack_def)
qed

text \<open>
  Claim C1 has the consumer negative-acknowledge, with requeue, a decoded message whose
  handler fails. Here the store rejects the write, so \<^verbatim>\<open>processXRayData\<close> fails; the
  consumer nevertheless acknowledges the message once, negative-acknowledges nothing, and
  no document has been stored.
\<close>

theorem consumer_acks_despite_rejected_write:
  "fst (processXRayData rejecting_create empty_signals reading_d1) = Inl (Error ''PersistenceError'')
   \<and> (case consumer_callback [xray_data_listener rejecting_create]
             (connected_service, empty_signals) (Some \<lparr>content = Json reading_d1\<rparr>) of
        (result, this', signals') \<Rightarrow>
          result = Inr ()
          \<and> map_option acked (channel this') = Some [\<lparr>content = Json reading_d1\<rparr>]
          \<and> map_option nacked (channel this') = Some []
          \<and> documents (signalModel signals') = [])"
  by (simp add: consumer_callback_def consumer_try_def optional_ack_def channel_ack_def
      xray_data_listener_def processXRayData_def createSignal_def rejecting_create_def
      connected_service_def open_channel_def empty_signals_def JSON_parse_def)

subsection \<open>Device simulator\<close>

lemma publish_connected:
  assumes "channel s = Some ch" and "\<not> chan_closed ch"
  shows "publishXRayData s d =
     (Inr (), s\<lparr>channel := Some (ch\<lparr>published := published ch @ [(exchangeName, routingKey, Json d)]\<rparr>),
               rmq_logger := rmq_logger s @
                 [(LOG, ''Published X-ray data for device: '' @ xray_deviceId d)]\<rparr>)"
  using assms by (simp add: publishXRayData_def channel_publish_def JSON_stringify_def)

lemma readings_of_snoc: "readings_of (ps @ [(e, k, Json d)]) = readings_of ps @ [d]"
  by (simp add: readings_of_def)








lemma simulation_tick_connected:
  assumes "connected this" and "entry_data (sim_deviceData sim) \<noteq> []"
  shows "\<exists>this'. simulation_tick sim this = Some (sim\<lparr>dataIndex := dataIndex sim + 1\<rparr>, this')
     \<and> connected this'
     \<and> sent this' = sent this @
          [tick_reading (sim_deviceId sim) (sim_deviceData sim) (dataIndex sim, now this)]"
proof -
  obtain ch where ch: "channel (rabbitMQService this) = Some ch" "\<not> chan_closed ch"
    using assms(1) by (auto simp: connected_def split: option.splits)
  show ?thesis
    using assms(2) ch
    by (simp add: simulation_tick_def publish_connected [OF ch] connected_def sent_def
        readings_of_snoc tick_reading_def Let_def)
qed

lemma simulation_tick_at_most_one:
  assumes "entry_data (sim_deviceData sim) \<noteq> []"
  shows "\<exists>sim' this'. simulation_tick sim this = Some (sim', this')
     \<and> ((dataIndex sim' = dataIndex sim + 1
          \<and> sent this' = sent this @
               [tick_reading (sim_deviceId sim) (sim_deviceData sim) (dataIndex sim, now this)])
        \<or> (dataIndex sim' = dataIndex sim \<and> sent this' = sent this))"
proof (cases "connected this")
  case True
  then show ?thesis using simulation_tick_connected [OF True assms] by auto
next
  case False
  then show ?thesis using assms
    by (auto simp: simulation_tick_def publishXRayData_def channel_publish_def connected_def
        sent_def Let_def split: option.splits)
qed




end
